theory Spec2Isabelle
  imports Complex_Main
begin

section \<open>Values, errors and arrays\<close>

text \<open>
  The notebook \<^verbatim>\<open>goes-data-timeseries.ipynb\<close> works on NumPy arrays of 64-bit floats.
  A cell of a geographic grid or of a data field is a real number or the undefined value
  \<^verbatim>\<open>nan\<close>: rounding is not modelled, so arithmetic on defined cells is exact.
  Python exceptions are values of \<open>py_error\<close>; a function that can raise returns a sum
  with the error on the left.
\<close>

datatype py_error = ValueError | IndexError | TypeError

datatype cell = NaN | Num real

fun isnan :: "cell \<Rightarrow> bool" where
  "isnan NaN = True"
| "isnan (Num v) = False"

text \<open>
  A two-dimensional array is its shape and its elements by row and column; only the
  elements inside the shape belong to the array.
\<close>

record 'a ndarray =
  shape0 :: nat
  shape1 :: nat
  elts :: "nat \<Rightarrow> nat \<Rightarrow> 'a"

text \<open>\<^verbatim>\<open>arr[:, i]\<close> and \<^verbatim>\<open>arr[r, :]\<close>, for an index that is in range.\<close>

definition column :: "'a ndarray \<Rightarrow> nat \<Rightarrow> 'a list" where
  "column arr i = map (\<lambda>r. elts arr r i) [0..<shape0 arr]"




section \<open>Projection Inverter\<close>

text \<open>
  \<^verbatim>\<open>calculate_degrees\<close> divides, takes square roots and arctangents, so its
  intermediate values can be infinite as well as undefined. They are modelled as IEEE
  values without rounding: a real number, one of the two infinities, or \<^verbatim>\<open>nan\<close>. The two
  zeros are not told apart (a division by zero takes the sign of the numerator). With
  NumPy's error handling at its default (a warning) or at \<^verbatim>\<open>'ignore'\<close>, which the
  function itself selects, no operation on floats raises.
\<close>

datatype float64 = FNaN | PInf | NInf | Fin real

fun f_neg :: "float64 \<Rightarrow> float64" where
  "f_neg FNaN = FNaN"
| "f_neg PInf = NInf"
| "f_neg NInf = PInf"
| "f_neg (Fin a) = Fin (- a)"

fun f_add :: "float64 \<Rightarrow> float64 \<Rightarrow> float64" where
  "f_add (Fin a) (Fin b) = Fin (a + b)"
| "f_add FNaN b = FNaN"
| "f_add a FNaN = FNaN"
| "f_add PInf NInf = FNaN"
| "f_add NInf PInf = FNaN"
| "f_add PInf b = PInf"
| "f_add a PInf = PInf"
| "f_add NInf b = NInf"
| "f_add a NInf = NInf"

definition f_sub :: "float64 \<Rightarrow> float64 \<Rightarrow> float64" where
  "f_sub a b = f_add a (f_neg b)"

fun f_mul :: "float64 \<Rightarrow> float64 \<Rightarrow> float64" where
  "f_mul (Fin a) (Fin b) = Fin (a * b)"
| "f_mul FNaN b = FNaN"
| "f_mul a FNaN = FNaN"
| "f_mul PInf (Fin b) = (if b = 0 then FNaN else if 0 < b then PInf else NInf)"
| "f_mul NInf (Fin b) = (if b = 0 then FNaN else if 0 < b then NInf else PInf)"
| "f_mul (Fin a) PInf = (if a = 0 then FNaN else if 0 < a then PInf else NInf)"
| "f_mul (Fin a) NInf = (if a = 0 then FNaN else if 0 < a then NInf else PInf)"
| "f_mul PInf PInf = PInf"
| "f_mul PInf NInf = NInf"
| "f_mul NInf PInf = NInf"
| "f_mul NInf NInf = PInf"

fun f_div :: "float64 \<Rightarrow> float64 \<Rightarrow> float64" where
  "f_div (Fin a) (Fin b) =
     (if b \<noteq> 0 then Fin (a / b) else if a = 0 then FNaN else if 0 < a then PInf else NInf)"
| "f_div FNaN b = FNaN"
| "f_div a FNaN = FNaN"
| "f_div (Fin a) PInf = Fin 0"
| "f_div (Fin a) NInf = Fin 0"
| "f_div PInf (Fin b) = (if 0 \<le> b then PInf else NInf)"
| "f_div NInf (Fin b) = (if 0 \<le> b then NInf else PInf)"
| "f_div PInf b = FNaN"
| "f_div NInf b = FNaN"

text \<open>\<^verbatim>\<open>np.sqrt\<close> of a negative number is \<^verbatim>\<open>nan\<close>, not an exception.\<close>

fun f_sqrt :: "float64 \<Rightarrow> float64" where
  "f_sqrt (Fin a) = (if a < 0 then FNaN else Fin (sqrt a))"
| "f_sqrt PInf = PInf"
| "f_sqrt NInf = FNaN"
| "f_sqrt FNaN = FNaN"

fun f_sin :: "float64 \<Rightarrow> float64" where
  "f_sin (Fin a) = Fin (sin a)"
| "f_sin a = FNaN"

fun f_cos :: "float64 \<Rightarrow> float64" where
  "f_cos (Fin a) = Fin (cos a)"
| "f_cos a = FNaN"

fun f_arctan :: "float64 \<Rightarrow> float64" where
  "f_arctan (Fin a) = Fin (arctan a)"
| "f_arctan PInf = Fin (pi / 2)"
| "f_arctan NInf = Fin (- (pi / 2))"
| "f_arctan FNaN = FNaN"

text \<open>\<^verbatim>\<open>np.power(a, 2.0)\<close> and \<^verbatim>\<open>a**2\<close>.\<close>

definition f_sq :: "float64 \<Rightarrow> float64" where
  "f_sq a = f_mul a a"

fun is_negative :: "float64 \<Rightarrow> bool" where
  "is_negative (Fin a) = (a < 0)"
| "is_negative NInf = True"
| "is_negative a = False"

text \<open>
  The product file: the scan angles \<^verbatim>\<open>variables['x']\<close> and \<^verbatim>\<open>variables['y']\<close>, and the
  attribute dictionary of \<^verbatim>\<open>goes_imager_projection\<close>, read with \<^verbatim>\<open>attrs.get\<close>, which
  gives \<^verbatim>\<open>None\<close> for a missing key.
\<close>

record goes_file =
  var_x :: "real list"
  var_y :: "real list"
  projection_attrs :: "string \<Rightarrow> real option"

record geometry =
  lon_origin :: float64
  H :: float64
  r_eq :: float64
  r_pol :: float64

text \<open>The equations of the function body, for one pair of scan angles.\<close>

definition lambda_0 :: "geometry \<Rightarrow> float64" where
  "lambda_0 g = f_div (f_mul (lon_origin g) (Fin pi)) (Fin 180)"

definition a_var :: "geometry \<Rightarrow> float64 \<Rightarrow> float64 \<Rightarrow> float64" where
  "a_var g x y =
     f_add (f_sq (f_sin x))
       (f_mul (f_sq (f_cos x))
          (f_add (f_sq (f_cos y))
             (f_mul (f_div (f_mul (r_eq g) (r_eq g)) (f_mul (r_pol g) (r_pol g)))
                (f_sq (f_sin y)))))"

definition b_var :: "geometry \<Rightarrow> float64 \<Rightarrow> float64 \<Rightarrow> float64" where
  "b_var g x y = f_mul (f_mul (f_mul (Fin (- 2)) (H g)) (f_cos x)) (f_cos y)"

definition c_var :: "geometry \<Rightarrow> float64" where
  "c_var g = f_sub (f_sq (H g)) (f_sq (r_eq g))"

definition discriminant :: "geometry \<Rightarrow> float64 \<Rightarrow> float64 \<Rightarrow> float64" where
  "discriminant g x y =
     f_sub (f_sq (b_var g x y)) (f_mul (f_mul (Fin 4) (a_var g x y)) (c_var g))"

definition r_s :: "geometry \<Rightarrow> float64 \<Rightarrow> float64 \<Rightarrow> float64" where
  "r_s g x y =
     f_div (f_sub (f_mul (Fin (- 1)) (b_var g x y)) (f_sqrt (discriminant g x y)))
           (f_mul (Fin 2) (a_var g x y))"

definition s_x :: "geometry \<Rightarrow> float64 \<Rightarrow> float64 \<Rightarrow> float64" where
  "s_x g x y = f_mul (f_mul (r_s g x y) (f_cos x)) (f_cos y)"

definition s_y :: "geometry \<Rightarrow> float64 \<Rightarrow> float64 \<Rightarrow> float64" where
  "s_y g x y = f_mul (f_neg (r_s g x y)) (f_sin x)"

definition s_z :: "geometry \<Rightarrow> float64 \<Rightarrow> float64 \<Rightarrow> float64" where
  "s_z g x y = f_mul (f_mul (r_s g x y) (f_cos x)) (f_sin y)"

definition abi_lat_cell :: "geometry \<Rightarrow> float64 \<Rightarrow> float64 \<Rightarrow> float64" where
  "abi_lat_cell g x y =
     f_mul (f_div (Fin 180) (Fin pi))
       (f_arctan
          (f_mul (f_div (f_mul (r_eq g) (r_eq g)) (f_mul (r_pol g) (r_pol g)))
             (f_div (s_z g x y)
                (f_sqrt (f_add (f_mul (f_sub (H g) (s_x g x y)) (f_sub (H g) (s_x g x y)))
                               (f_mul (s_y g x y) (s_y g x y)))))))"

definition abi_lon_cell :: "geometry \<Rightarrow> float64 \<Rightarrow> float64 \<Rightarrow> float64" where
  "abi_lon_cell g x y =
     f_mul (f_sub (lambda_0 g) (f_arctan (f_div (s_y g x y) (f_sub (H g) (s_x g x y)))))
           (f_div (Fin 180) (Fin pi))"

text \<open>
  \<^verbatim>\<open>np.meshgrid(x, y)\<close>: two arrays of shape \<^verbatim>\<open>(len(y), len(x))\<close>, the first holding
  \<^verbatim>\<open>x[c]\<close> and the second \<^verbatim>\<open>y[r]\<close> at row \<open>r\<close> and column \<open>c\<close>. The equations are applied
  element by element.
\<close>

definition meshgrid :: "real list \<Rightarrow> real list \<Rightarrow> float64 ndarray \<times> float64 ndarray" where
  "meshgrid xs ys =
     (\<lparr>shape0 = length ys, shape1 = length xs, elts = \<lambda>r c. Fin (xs ! c)\<rparr>,
      \<lparr>shape0 = length ys, shape1 = length xs, elts = \<lambda>r c. Fin (ys ! r)\<rparr>)"

definition elementwise ::
  "(float64 \<Rightarrow> float64 \<Rightarrow> float64) \<Rightarrow> float64 ndarray \<Rightarrow> float64 ndarray \<Rightarrow> float64 ndarray" where
  "elementwise f xa ya =
     \<lparr>shape0 = shape0 xa, shape1 = shape1 xa, elts = \<lambda>r c. f (elts xa r c) (elts ya r c)\<rparr>"

text \<open>
  A missing attribute is \<^verbatim>\<open>None\<close>, and the arithmetic on it raises \<^verbatim>\<open>TypeError\<close>
  before any cell is computed.
\<close>

definition calculate_degrees :: "goes_file \<Rightarrow> py_error + (float64 ndarray \<times> float64 ndarray)" where
  "calculate_degrees file_id =
     (case (projection_attrs file_id ''longitude_of_projection_origin'',
            projection_attrs file_id ''perspective_point_height'',
            projection_attrs file_id ''semi_major_axis'',
            projection_attrs file_id ''semi_minor_axis'') of
        (Some lon0, Some pph, Some sma, Some smi) \<Rightarrow>
          (let g = \<lparr>lon_origin = Fin lon0, H = f_add (Fin pph) (Fin sma),
                    r_eq = Fin sma, r_pol = Fin smi\<rparr>;
               (x_coordinate_2d, y_coordinate_2d) = meshgrid (var_x file_id) (var_y file_id)
           in Inr (elementwise (abi_lat_cell g) x_coordinate_2d y_coordinate_2d,
                   elementwise (abi_lon_cell g) x_coordinate_2d y_coordinate_2d))
      | _ \<Rightarrow> Inl TypeError)"

section \<open>Gap Filler\<close>

text \<open>
  \<^verbatim>\<open>np.flatnonzero(m)\<close> lists the indices at which the boolean array is true, in
  increasing order, and \<^verbatim>\<open>a[m]\<close> is \<^verbatim>\<open>a[m.nonzero()]\<close>: the elements at those indices.
\<close>

definition flatnonzero :: "bool list \<Rightarrow> nat list" where
  "flatnonzero msk = filter (\<lambda>k. msk ! k) [0..<length msk]"

definition bool_index :: "'a list \<Rightarrow> bool list \<Rightarrow> 'a list" where
  "bool_index a msk = map (\<lambda>k. a ! k) (flatnonzero msk)"

text \<open>
  \<^verbatim>\<open>np.interp(x, xp, fp)\<close> with its default \<^verbatim>\<open>left\<close> and \<^verbatim>\<open>right\<close>, for increasing
  sample points \<^verbatim>\<open>xp\<close>. Between two neighbouring samples the result is
  \<^verbatim>\<open>slope*(x - xp[j]) + fp[j]\<close> with \<^verbatim>\<open>slope = (fp[j+1] - fp[j]) / (xp[j+1] - xp[j])\<close>;
  on a sample it is that sample's value; left of the first sample it is \<^verbatim>\<open>fp[0]\<close> and
  right of the last one \<^verbatim>\<open>fp[-1]\<close>. An empty \<^verbatim>\<open>xp\<close>, or an \<^verbatim>\<open>fp\<close> of another length,
  raises \<^verbatim>\<open>ValueError\<close>.
\<close>

fun lin :: "real \<Rightarrow> real \<times> cell \<Rightarrow> real \<times> cell \<Rightarrow> cell" where
  "lin x (x0, Num y0) (x1, Num y1) = Num (((y1 - y0) / (x1 - x0)) * (x - x0) + y0)"
| "lin x (x0, NaN) q = NaN"
| "lin x (x0, Num y0) (x1, NaN) = NaN"

fun interp_scan :: "real \<Rightarrow> real \<times> cell \<Rightarrow> (real \<times> cell) list \<Rightarrow> cell" where
  "interp_scan x p [] = snd p"
| "interp_scan x p (q # ps) =
     (if x < fst q then (if x = fst p then snd p else lin x p q)
      else interp_scan x q ps)"

definition interp_at :: "real \<Rightarrow> (real \<times> cell) list \<Rightarrow> cell" where
  "interp_at x pts =
     (case pts of [] \<Rightarrow> NaN
      | p # ps \<Rightarrow> if x < fst p then snd p else interp_scan x p ps)"

definition np_interp :: "real list \<Rightarrow> real list \<Rightarrow> cell list \<Rightarrow> py_error + cell list" where
  "np_interp x xp fp =
     (if xp = [] then Inl ValueError
      else if length fp \<noteq> length xp then Inl ValueError
      else Inr (map (\<lambda>v. interp_at v (zip xp fp)) x))"

text \<open>
  \<^verbatim>\<open>arr[mask, i] = vals\<close>: the rows at which the mask is true receive the values in
  order. The call below passes as many values as the mask has true entries.
\<close>

definition assign_masked :: "cell ndarray \<Rightarrow> bool list \<Rightarrow> nat \<Rightarrow> cell list \<Rightarrow> cell ndarray" where
  "assign_masked arr msk i vals =
     arr\<lparr>elts := (\<lambda>r c. if c = i
                          then (case map_of (zip (flatnonzero msk) vals) r of
                                  Some v \<Rightarrow> v | None \<Rightarrow> elts arr r c)
                          else elts arr r c)\<rparr>"

text \<open>The body of the loop of \<^verbatim>\<open>forward_fill_2d\<close>, for the column \<open>i\<close>.\<close>

definition fill_column :: "cell ndarray \<Rightarrow> nat \<Rightarrow> py_error + cell ndarray" where
  "fill_column arr i =
     (let msk = map isnan (column arr i);
          not_msk = map Not msk
      in case np_interp (map real (flatnonzero msk)) (map real (flatnonzero not_msk))
                (bool_index (column arr i) not_msk) of
           Inl e \<Rightarrow> Inl e
         | Inr vals \<Rightarrow> Inr (assign_masked arr msk i vals))"

text \<open>
  The loop over the columns. It writes into the array it was given; when a column raises,
  the columns before it have been written already.
\<close>

fun fill_columns :: "nat list \<Rightarrow> cell ndarray \<Rightarrow> py_error option \<times> cell ndarray" where
  "fill_columns [] arr = (None, arr)"
| "fill_columns (i # rest) arr =
     (case fill_column arr i of
        Inl e \<Rightarrow> (Some e, arr)
      | Inr arr' \<Rightarrow> fill_columns rest arr')"

text \<open>
  Arrays are objects: the store maps a reference to the array it holds.
  \<^verbatim>\<open>forward_fill_2d(arr)\<close> takes a reference, updates the array behind it and returns
  the reference it was given (\<^verbatim>\<open>return arr\<close>). \<^verbatim>\<open>arr.copy()\<close> stores a copy at a new
  reference \<open>b\<close>.
\<close>

type_synonym heap = "nat \<Rightarrow> cell ndarray"

definition forward_fill_2d :: "heap \<Rightarrow> nat \<Rightarrow> (py_error + nat) \<times> heap" where
  "forward_fill_2d h a =
     (case fill_columns [0..<shape1 (h a)] (h a) of
        (None, arr') \<Rightarrow> (Inr a, h(a := arr'))
      | (Some e, arr') \<Rightarrow> (Inl e, h(a := arr')))"

definition ndarray_copy :: "heap \<Rightarrow> nat \<Rightarrow> nat \<Rightarrow> heap" where
  "ndarray_copy h a b = h(b := h a)"

section \<open>Nearest-Point Locator\<close>









section \<open>Neighbor Offset Generator\<close>

text \<open>
  \<^verbatim>\<open>calculate_points(istep)\<close> builds a list of eight dictionaries with the keys
  \<^verbatim>\<open>"i"\<close>, \<^verbatim>\<open>"j"\<close> and \<^verbatim>\<open>"name"\<close>. It reads the notebook's global variables
  \<^verbatim>\<open>lat_idx\<close> and \<^verbatim>\<open>lon_idx\<close>, which are parameters here, and its first statement
  is \<^verbatim>\<open>istep = 1\<close>, which replaces the argument. \<^verbatim>\<open>int(...)\<close> gives an unbounded
  Python integer.
\<close>

record point =
  pt_i :: int
  pt_j :: int
  pt_name :: string

definition calculate_points :: "int \<Rightarrow> int \<Rightarrow> int \<Rightarrow> point list" where
  "calculate_points lat_idx lon_idx istep0 =
     (let istep = 1 in
      [\<lparr>pt_i = lon_idx + istep, pt_j = lat_idx + istep, pt_name = ''NE''\<rparr>,
       \<lparr>pt_i = lon_idx + istep, pt_j = lat_idx, pt_name = ''East''\<rparr>,
       \<lparr>pt_i = lon_idx + istep, pt_j = lat_idx - istep, pt_name = ''SW''\<rparr>,
       \<lparr>pt_i = lon_idx, pt_j = lat_idx + istep, pt_name = ''N''\<rparr>,
       \<lparr>pt_i = lon_idx, pt_j = lat_idx - istep, pt_name = ''S''\<rparr>,
       \<lparr>pt_i = lon_idx - istep, pt_j = lat_idx + istep, pt_name = ''NW''\<rparr>,
       \<lparr>pt_i = lon_idx - istep, pt_j = lat_idx, pt_name = ''W''\<rparr>,
       \<lparr>pt_i = lon_idx - istep, pt_j = lat_idx - istep, pt_name = ''SW''\<rparr>])"

section \<open>Time-Series Extractor\<close>

text \<open>
  The data field with its time dimension: the sizes of the dimensions \<^verbatim>\<open>time\<close>, \<^verbatim>\<open>y\<close>
  and \<^verbatim>\<open>x\<close>, and the sample at a timestamp, a row and a column.
\<close>

record dataset =
  n_time :: nat
  n_y :: nat
  n_x :: nat
  data :: "nat \<Rightarrow> nat \<Rightarrow> nat \<Rightarrow> cell"

text \<open>
  \<^verbatim>\<open>ds.isel(y=j, x=i)\<close> with integers indexes as NumPy does: an index \<open>k\<close> of an axis of
  size \<open>n\<close> is accepted when \<open>-n \<le> k < n\<close>, a negative one counting from the end, and
  raises \<^verbatim>\<open>IndexError\<close> otherwise. The result keeps the time dimension.
\<close>

definition wrap_index :: "nat \<Rightarrow> int \<Rightarrow> nat" where
  "wrap_index n k = nat (if k < 0 then k + int n else k)"

definition isel_index :: "nat \<Rightarrow> int \<Rightarrow> py_error + nat" where
  "isel_index n k = (if - int n \<le> k \<and> k < int n then Inr (wrap_index n k) else Inl IndexError)"

definition isel :: "dataset \<Rightarrow> int \<Rightarrow> int \<Rightarrow> py_error + cell list" where
  "isel ds y x =
     (case isel_index (n_y ds) y of
        Inl e \<Rightarrow> Inl e
      | Inr jj \<Rightarrow>
          (case isel_index (n_x ds) x of
             Inl e \<Rightarrow> Inl e
           | Inr ii \<Rightarrow> Inr (map (\<lambda>t. data ds t jj ii) [0..<n_time ds])))"

text \<open>
  The extraction cell: \<^verbatim>\<open>combined_data\<close> starts as the series of \<^verbatim>\<open>points[0]\<close>, and the
  loop appends the series of every later point along the new dimension
  \<^verbatim>\<open>points_index\<close> (\<^verbatim>\<open>xr.concat\<close>). \<^verbatim>\<open>points[0]\<close> of an empty list raises.
\<close>

fun concat_points :: "dataset \<Rightarrow> cell list list \<Rightarrow> point list \<Rightarrow> py_error + cell list list" where
  "concat_points ds combined_data [] = Inr combined_data"
| "concat_points ds combined_data (p # ps) =
     (case isel ds (pt_j p) (pt_i p) of
        Inl e \<Rightarrow> Inl e
      | Inr tem \<Rightarrow> concat_points ds (combined_data @ [tem]) ps)"

fun extract_points :: "dataset \<Rightarrow> point list \<Rightarrow> py_error + cell list list" where
  "extract_points ds [] = Inl IndexError"
| "extract_points ds (p0 # ps) =
     (case isel ds (pt_j p0) (pt_i p0) of
        Inl e \<Rightarrow> Inl e
      | Inr combined_data \<Rightarrow> concat_points ds [combined_data] ps)"

section \<open>Notions used in the statements\<close>

text \<open>
  The sample points \<^verbatim>\<open>np.interp\<close> receives for a column (the rows that hold a defined
  value, with their values), the value the Gap Filler leaves in a cell, and the grid with
  every column filled.
\<close>

definition sample_points :: "cell ndarray \<Rightarrow> nat \<Rightarrow> (real \<times> cell) list" where
  "sample_points arr i =
     map (\<lambda>k. (real k, elts arr k i)) (filter (\<lambda>k. \<not> isnan (elts arr k i)) [0..<shape0 arr])"

definition filled_value :: "cell ndarray \<Rightarrow> nat \<Rightarrow> nat \<Rightarrow> cell" where
  "filled_value arr r c =
     (if r < shape0 arr \<and> isnan (elts arr r c) then interp_at (real r) (sample_points arr c)
      else elts arr r c)"

definition fill_all :: "cell ndarray \<Rightarrow> cell ndarray" where
  "fill_all arr = arr\<lparr>elts := (\<lambda>r c. if c < shape1 arr then filled_value arr r c else elts arr r c)\<rparr>"



text \<open>The time series of a data field at a fixed row and column.\<close>

definition series_at :: "dataset \<Rightarrow> nat \<Rightarrow> nat \<Rightarrow> cell list" where
  "series_at ds jj ii = map (\<lambda>t. data ds t jj ii) [0..<n_time ds]"

section \<open>Properties of the Projection Inverter\<close>

lemma f_add_nan [simp]: "f_add a FNaN = FNaN"
  by (cases a) simp_all

lemma f_mul_nan [simp]: "f_mul a FNaN = FNaN"
  by (cases a) simp_all

lemma f_div_nan [simp]: "f_div a FNaN = FNaN"
  by (cases a) simp_all

lemma f_sub_nan [simp]: "f_sub a FNaN = FNaN" "f_sub FNaN b = FNaN"
  by (simp_all add: f_sub_def)

lemma f_sqrt_negative: "is_negative d \<Longrightarrow> f_sqrt d = FNaN"
  by (cases d) simp_all

text \<open>An undefined slant range makes the three satellite-frame coordinates undefined.\<close>

lemma r_s_nan: "is_negative (discriminant g x y) \<Longrightarrow> r_s g x y = FNaN"
  by (simp add: r_s_def f_sqrt_negative)

lemma abi_lat_cell_nan: "is_negative (discriminant g x y) \<Longrightarrow> abi_lat_cell g x y = FNaN"
  by (simp add: abi_lat_cell_def s_z_def r_s_nan)

lemma abi_lon_cell_nan: "is_negative (discriminant g x y) \<Longrightarrow> abi_lon_cell g x y = FNaN"
  by (simp add: abi_lon_cell_def s_y_def r_s_nan)

lemma calculate_degrees_cells:
  assumes "projection_attrs file_id ''longitude_of_projection_origin'' = Some lon0"
    and "projection_attrs file_id ''perspective_point_height'' = Some pph"
    and "projection_attrs file_id ''semi_major_axis'' = Some sma"
    and "projection_attrs file_id ''semi_minor_axis'' = Some smi"
  shows "calculate_degrees file_id =
     Inr (\<lparr>shape0 = length (var_y file_id), shape1 = length (var_x file_id),
            elts = \<lambda>r c. abi_lat_cell
               \<lparr>lon_origin = Fin lon0, H = f_add (Fin pph) (Fin sma), r_eq = Fin sma, r_pol = Fin smi\<rparr>
               (Fin (var_x file_id ! c)) (Fin (var_y file_id ! r))\<rparr>,
          \<lparr>shape0 = length (var_y file_id), shape1 = length (var_x file_id),
            elts = \<lambda>r c. abi_lon_cell
               \<lparr>lon_origin = Fin lon0, H = f_add (Fin pph) (Fin sma), r_eq = Fin sma, r_pol = Fin smi\<rparr>
               (Fin (var_x file_id ! c)) (Fin (var_y file_id ! r))\<rparr>)"
  using assms by (simp add: calculate_degrees_def meshgrid_def elementwise_def Let_def)

text \<open>
  Claim C5. With the four projection attributes present, \<^verbatim>\<open>calculate_degrees\<close> returns
  the two grids, of the shape of the scan grid, and does not raise. A cell whose
  discriminant \<^verbatim>\<open>b_var**2 - 4.0*a_var*c_var\<close> is negative is undefined in both grids, and
  every cell of both grids is the value of the equations at that cell's own pair of scan
  angles, whatever the other cells are.
\<close>

theorem calculate_degrees_missing_cell:
  assumes "projection_attrs file_id ''longitude_of_projection_origin'' = Some lon0"
    and "projection_attrs file_id ''perspective_point_height'' = Some pph"
    and "projection_attrs file_id ''semi_major_axis'' = Some sma"
    and "projection_attrs file_id ''semi_minor_axis'' = Some smi"
    and "r < length (var_y file_id)" and "c < length (var_x file_id)"
    and "is_negative (discriminant
            \<lparr>lon_origin = Fin lon0, H = f_add (Fin pph) (Fin sma), r_eq = Fin sma, r_pol = Fin smi\<rparr>
            (Fin (var_x file_id ! c)) (Fin (var_y file_id ! r)))"
  shows "\<exists>abi_lat abi_lon. calculate_degrees file_id = Inr (abi_lat, abi_lon) \<and>
    shape0 abi_lat = length (var_y file_id) \<and> shape1 abi_lat = length (var_x file_id) \<and>
    shape0 abi_lon = length (var_y file_id) \<and> shape1 abi_lon = length (var_x file_id) \<and>
    elts abi_lat r c = FNaN \<and> elts abi_lon r c = FNaN \<and>
    (\<forall>r'<length (var_y file_id). \<forall>c'<length (var_x file_id).
        elts abi_lat r' c' =
          abi_lat_cell \<lparr>lon_origin = Fin lon0, H = f_add (Fin pph) (Fin sma),
                         r_eq = Fin sma, r_pol = Fin smi\<rparr>
            (Fin (var_x file_id ! c')) (Fin (var_y file_id ! r')) \<and>
        elts abi_lon r' c' =
          abi_lon_cell \<lparr>lon_origin = Fin lon0, H = f_add (Fin pph) (Fin sma),
                         r_eq = Fin sma, r_pol = Fin smi\<rparr>
            (Fin (var_x file_id ! c')) (Fin (var_y file_id ! r')))"
proof -
  let ?g = "\<lparr>lon_origin = Fin lon0, H = f_add (Fin pph) (Fin sma), r_eq = Fin sma, r_pol = Fin smi\<rparr>"
  let ?x = "Fin (var_x file_id ! c)" and ?y = "Fin (var_y file_id ! r)"
  have lat: "abi_lat_cell ?g ?x ?y = FNaN"
    using assms(7) by (rule abi_lat_cell_nan)
  have lon: "abi_lon_cell ?g ?x ?y = FNaN"
    using assms(7) by (rule abi_lon_cell_nan)
  show ?thesis
    unfolding calculate_degrees_cells [OF assms(1-4)]
    using lat lon by simp
qed

lemma sqrt_example: "sqrt 162722526363076 = 12756274"
  by (rule real_sqrt_unique) simp_all

lemma goes16_center_cell:
  "abi_lat_cell \<lparr>lon_origin = Fin (- 75), H = f_add (Fin 35786023) (Fin 6378137),
       r_eq = Fin 6378137, r_pol = Fin (635675231414 / 100000)\<rparr> (Fin 0) (Fin 0) = Fin 0"
  "abi_lon_cell \<lparr>lon_origin = Fin (- 75), H = f_add (Fin 35786023) (Fin 6378137),
       r_eq = Fin 6378137, r_pol = Fin (635675231414 / 100000)\<rparr> (Fin 0) (Fin 0) = Fin (- 75)"
  by (simp_all add: abi_lat_cell_def abi_lon_cell_def s_x_def s_y_def s_z_def r_s_def
        discriminant_def a_var_def b_var_def c_var_def f_sq_def f_sub_def lambda_0_def
        sqrt_example)

lemma goes16_limb_cell:
  "is_negative (discriminant \<lparr>lon_origin = Fin (- 75), H = f_add (Fin 35786023) (Fin 6378137),
       r_eq = Fin 6378137, r_pol = Fin (635675231414 / 100000)\<rparr> (Fin (pi / 2)) (Fin 0))"
  by (simp add: discriminant_def a_var_def b_var_def c_var_def f_sq_def f_sub_def)

text \<open>
  The theorem at the GOES-16 projection constants, on a scan grid of one row and two
  columns: the sub-satellite angle pair \<open>(0, 0)\<close> and the pair \<open>(\<pi>/2, 0)\<close>, whose ray
  misses the Earth. The second cell is undefined; the first is at latitude 0 and at the
  longitude of the projection origin.
\<close>

theorem calculate_degrees_missing_cell_witness:
  "\<exists>abi_lat abi_lon.
     calculate_degrees
       \<lparr>var_x = [0, pi / 2], var_y = [0],
        projection_attrs = map_of
          [(''longitude_of_projection_origin'', - 75), (''perspective_point_height'', 35786023),
           (''semi_major_axis'', 6378137), (''semi_minor_axis'', 635675231414 / 100000)]\<rparr>
       = Inr (abi_lat, abi_lon) \<and>
     shape0 abi_lat = 1 \<and> shape1 abi_lat = 2 \<and> shape0 abi_lon = 1 \<and> shape1 abi_lon = 2 \<and>
     elts abi_lat 0 1 = FNaN \<and> elts abi_lon 0 1 = FNaN \<and>
     elts abi_lat 0 0 = Fin 0 \<and> elts abi_lon 0 0 = Fin (- 75)"
proof -
  let ?file = "\<lparr>var_x = [0, pi / 2], var_y = [0 :: real],
        projection_attrs = map_of
          [(''longitude_of_projection_origin'', - 75), (''perspective_point_height'', 35786023),
           (''semi_major_axis'', 6378137), (''semi_minor_axis'', 635675231414 / 100000)]\<rparr>"
  have attrs: "projection_attrs ?file ''longitude_of_projection_origin'' = Some (- 75)"
    "projection_attrs ?file ''perspective_point_height'' = Some 35786023"
    "projection_attrs ?file ''semi_major_axis'' = Some 6378137"
    "projection_attrs ?file ''semi_minor_axis'' = Some (635675231414 / 100000)"
    by simp_all
  have bounds: "0 < length (var_y ?file)" "1 < length (var_x ?file)"
    by simp_all
  have miss: "is_negative (discriminant
      \<lparr>lon_origin = Fin (- 75), H = f_add (Fin 35786023) (Fin 6378137),
         r_eq = Fin 6378137, r_pol = Fin (635675231414 / 100000)\<rparr>
      (Fin (var_x ?file ! 1)) (Fin (var_y ?file ! 0)))"
    using goes16_limb_cell by simp
  from calculate_degrees_missing_cell [OF attrs bounds miss]
  obtain abi_lat abi_lon where run: "calculate_degrees ?file = Inr (abi_lat, abi_lon)"
    and shape: "shape0 abi_lat = length (var_y ?file)" "shape1 abi_lat = length (var_x ?file)"
      "shape0 abi_lon = length (var_y ?file)" "shape1 abi_lon = length (var_x ?file)"
    and nan: "elts abi_lat 0 1 = FNaN" "elts abi_lon 0 1 = FNaN"
    and cells: "\<forall>r'<length (var_y ?file). \<forall>c'<length (var_x ?file).
        elts abi_lat r' c' =
          abi_lat_cell \<lparr>lon_origin = Fin (- 75), H = f_add (Fin 35786023) (Fin 6378137),
                         r_eq = Fin 6378137, r_pol = Fin (635675231414 / 100000)\<rparr>
            (Fin (var_x ?file ! c')) (Fin (var_y ?file ! r')) \<and>
        elts abi_lon r' c' =
          abi_lon_cell \<lparr>lon_origin = Fin (- 75), H = f_add (Fin 35786023) (Fin 6378137),
                         r_eq = Fin 6378137, r_pol = Fin (635675231414 / 100000)\<rparr>
            (Fin (var_x ?file ! c')) (Fin (var_y ?file ! r'))"
    by blast
  have "elts abi_lat 0 0 = Fin 0" "elts abi_lon 0 0 = Fin (- 75)"
    using cells [rule_format, of 0 0] goes16_center_cell by simp_all
  with run shape nan show ?thesis
    by simp
qed

section \<open>Properties of the Gap Filler\<close>

lemma flatnonzero_mask:
  "flatnonzero (map isnan (column arr i)) = filter (\<lambda>k. isnan (elts arr k i)) [0..<shape0 arr]"
  unfolding flatnonzero_def column_def
  by (rule filter_cong) (simp_all)

lemma flatnonzero_not_mask:
  "flatnonzero (map Not (map isnan (column arr i))) =
     filter (\<lambda>k. \<not> isnan (elts arr k i)) [0..<shape0 arr]"
  unfolding flatnonzero_def column_def
  by (rule filter_cong) (simp_all)

lemma zip_sample_points:
  "zip (map real (flatnonzero (map Not (map isnan (column arr i)))))
       (bool_index (column arr i) (map Not (map isnan (column arr i)))) = sample_points arr i"
  unfolding bool_index_def flatnonzero_not_mask sample_points_def
  by (simp add: zip_map_map column_def zip_same_conv_map)

lemma fill_column_defined:
  assumes "\<exists>r<shape0 arr. \<not> isnan (elts arr r i)"
  shows "fill_column arr i =
     Inr (arr\<lparr>elts := (\<lambda>r c. if c = i then filled_value arr r c else elts arr r c)\<rparr>)"
proof -
  let ?xs = "filter (\<lambda>k. isnan (elts arr k i)) [0..<shape0 arr]"
  let ?xp = "filter (\<lambda>k. \<not> isnan (elts arr k i)) [0..<shape0 arr]"
  let ?M = "map isnan (column arr i)"
  let ?N = "map Not ?M"
  let ?g = "\<lambda>k. interp_at (real k) (sample_points arr i)"
  have ne: "map real (flatnonzero ?N) \<noteq> []"
    unfolding flatnonzero_not_mask using assms by (auto simp: filter_empty_conv)
  have len: "length (bool_index (column arr i) ?N) = length (map real (flatnonzero ?N))"
    by (simp only: bool_index_def length_map)
  have "np_interp (map real (flatnonzero ?M)) (map real (flatnonzero ?N))
          (bool_index (column arr i) ?N)
        = Inr (map (\<lambda>v. interp_at v (sample_points arr i)) (map real (flatnonzero ?M)))"
    unfolding np_interp_def using ne len by (simp only: zip_sample_points if_False simp_thms)
  then have interp: "np_interp (map real (flatnonzero ?M)) (map real (flatnonzero ?N))
          (bool_index (column arr i) ?N) = Inr (map ?g ?xs)"
    by (simp add: flatnonzero_mask comp_def)
  have look: "map_of (zip ?xs (map ?g ?xs)) r =
      (if r < shape0 arr \<and> isnan (elts arr r i) then Some (?g r) else None)" for r
    by (simp add: map_of_zip_map)
  have "fill_column arr i = Inr (assign_masked arr ?M i (map ?g ?xs))"
    unfolding fill_column_def Let_def by (simp only: interp sum.case)
  also have "assign_masked arr ?M i (map ?g ?xs) =
      arr\<lparr>elts := (\<lambda>r c. if c = i then filled_value arr r c else elts arr r c)\<rparr>"
    unfolding assign_masked_def flatnonzero_mask
    by (simp add: look filled_value_def fun_eq_iff)
  finally show ?thesis .
qed

lemma fill_column_undefined:
  assumes "\<forall>r<shape0 arr. isnan (elts arr r i)"
  shows "fill_column arr i = Inl ValueError"
proof -
  have "filter (\<lambda>k. \<not> isnan (elts arr k i)) [0..<shape0 arr] = []"
    using assms by (simp add: filter_empty_conv)
  then show ?thesis
    unfolding fill_column_def Let_def np_interp_def flatnonzero_not_mask
    by simp
qed


lemma sample_points_other_column:
  "c \<noteq> i \<Longrightarrow>
   sample_points (arr\<lparr>elts := (\<lambda>r c. if c = i then f r c else elts arr r c)\<rparr>) c =
   sample_points arr c"
  by (simp add: sample_points_def)

lemma filled_value_other_column:
  "c \<noteq> i \<Longrightarrow>
   filled_value (arr\<lparr>elts := (\<lambda>r c. if c = i then f r c else elts arr r c)\<rparr>) r c =
   filled_value arr r c"
  by (simp add: filled_value_def sample_points_def)

lemma fill_columns_defined:
  assumes "distinct cs" and "\<forall>c\<in>set cs. \<exists>r<shape0 arr. \<not> isnan (elts arr r c)"
  shows "fill_columns cs arr =
     (None, arr\<lparr>elts := (\<lambda>r c. if c \<in> set cs then filled_value arr r c else elts arr r c)\<rparr>)"
  using assms
proof (induction cs arbitrary: arr)
  case Nil
  then show ?case by simp
next
  case (Cons i cs)
  let ?arr1 = "arr\<lparr>elts := (\<lambda>r c. if c = i then filled_value arr r c else elts arr r c)\<rparr>"
  have step: "fill_column arr i = Inr ?arr1"
    using Cons.prems by (intro fill_column_defined) simp
  have notin: "i \<notin> set cs" and dist: "distinct cs"
    using Cons.prems by simp_all
  have "\<forall>c\<in>set cs. \<exists>r<shape0 ?arr1. \<not> isnan (elts ?arr1 r c)"
    using Cons.prems notin by auto
  from Cons.IH [OF dist this]
  have "fill_columns cs ?arr1 =
     (None, ?arr1\<lparr>elts := (\<lambda>r c. if c \<in> set cs then filled_value ?arr1 r c
                                   else elts ?arr1 r c)\<rparr>)" .
  moreover have "(\<lambda>r c. if c \<in> set cs then filled_value ?arr1 r c else elts ?arr1 r c) =
     (\<lambda>r c. if c \<in> set (i # cs) then filled_value arr r c else elts arr r c)"
  proof (intro ext)
    fix r c
    show "(if c \<in> set cs then filled_value ?arr1 r c else elts ?arr1 r c) =
          (if c \<in> set (i # cs) then filled_value arr r c else elts arr r c)"
      using notin filled_value_other_column [where c = c and i = i and arr = arr and f = "filled_value arr" and r = r]
      by (cases "c = i") auto
  qed
  ultimately show ?case
    using step by simp
qed

lemma forward_fill_2d_defined:
  assumes "\<forall>c<shape1 (h a). \<exists>r<shape0 (h a). \<not> isnan (elts (h a) r c)"
  shows "forward_fill_2d h a = (Inr a, h(a := fill_all (h a)))"
proof -
  have "fill_columns [0..<shape1 (h a)] (h a) = (None, fill_all (h a))"
    using fill_columns_defined [of "[0..<shape1 (h a)]" "h a"] assms
    by (simp add: fill_all_def)
  then show ?thesis
    by (simp add: forward_fill_2d_def)
qed

lemma lin_defined: "\<not> isnan (snd p) \<Longrightarrow> \<not> isnan (snd q) \<Longrightarrow> \<not> isnan (lin x p q)"
  by (cases p; cases q; cases "snd p"; cases "snd q") auto

lemma interp_scan_defined:
  "\<not> isnan (snd p) \<Longrightarrow> \<forall>q\<in>set ps. \<not> isnan (snd q) \<Longrightarrow> \<not> isnan (interp_scan x p ps)"
  by (induction ps arbitrary: p) (auto simp: lin_defined)

lemma interp_at_defined:
  "pts \<noteq> [] \<Longrightarrow> \<forall>q\<in>set pts. \<not> isnan (snd q) \<Longrightarrow> \<not> isnan (interp_at x pts)"
  by (cases pts) (auto simp: interp_at_def interp_scan_defined)

lemma filled_value_defined:
  assumes "\<exists>k<shape0 arr. \<not> isnan (elts arr k c)" and "r < shape0 arr"
  shows "\<not> isnan (filled_value arr r c)"
proof -
  have "sample_points arr c \<noteq> []"
    using assms(1) by (auto simp: sample_points_def filter_empty_conv)
  moreover have "\<forall>q\<in>set (sample_points arr c). \<not> isnan (snd q)"
    by (auto simp: sample_points_def)
  ultimately show ?thesis
    using assms(2) by (simp add: filled_value_def interp_at_defined)
qed

lemma filled_value_keeps: "\<not> isnan (elts arr r c) \<Longrightarrow> filled_value arr r c = elts arr r c"
  by (simp add: filled_value_def)














lemma fill_all_idem:
  assumes "\<forall>c<shape1 arr. \<exists>r<shape0 arr. \<not> isnan (elts arr r c)"
  shows "fill_all (fill_all arr) = fill_all arr"
proof -
  have "filled_value (fill_all arr) r c = elts (fill_all arr) r c" if "c < shape1 arr" for r c
  proof (cases "r < shape0 arr")
    case True
    then have "\<not> isnan (filled_value arr r c)"
      using assms that by (intro filled_value_defined) auto
    then show ?thesis
      using that by (simp add: filled_value_keeps fill_all_def)
  next
    case False
    then show ?thesis
      by (simp add: filled_value_def fill_all_def)
  qed
  then have "(\<lambda>r c. if c < shape1 (fill_all arr) then filled_value (fill_all arr) r c
                   else elts (fill_all arr) r c) = elts (fill_all arr)"
    by (auto simp: fun_eq_iff fill_all_def)
  then have "fill_all (fill_all arr) = (fill_all arr)\<lparr>elts := elts (fill_all arr)\<rparr>"
    by (simp only: fill_all_def [of "fill_all arr"])
  then show ?thesis by simp
qed


lemma fill_columns_frame:
  "fill_columns cs arr = (res, arr') \<Longrightarrow>
   shape0 arr' = shape0 arr \<and> shape1 arr' = shape1 arr \<and>
   (\<forall>r c. \<not> isnan (elts arr r c) \<longrightarrow> elts arr' r c = elts arr r c) \<and>
   (res = None \<or> res = Some ValueError) \<and>
   (res = None \<longrightarrow> (\<forall>c\<in>set cs. \<forall>r<shape0 arr. \<not> isnan (elts arr' r c)))"
proof (induction cs arbitrary: arr)
  case Nil
  then show ?case by simp
next
  case (Cons i cs)
  show ?case
  proof (cases "\<exists>r<shape0 arr. \<not> isnan (elts arr r i)")
    case False
    then have "fill_column arr i = Inl ValueError"
      by (intro fill_column_undefined) simp
    with Cons.prems show ?thesis by auto
  next
    case True
    let ?arr1 = "arr\<lparr>elts := (\<lambda>r c. if c = i then filled_value arr r c else elts arr r c)\<rparr>"
    have step: "fill_column arr i = Inr ?arr1"
      using True by (rule fill_column_defined)
    with Cons.prems have "fill_columns cs ?arr1 = (res, arr')"
      by simp
    from Cons.IH [OF this]
    have sh: "shape0 arr' = shape0 arr" "shape1 arr' = shape1 arr"
      and keep: "\<forall>r c. \<not> isnan (elts ?arr1 r c) \<longrightarrow> elts arr' r c = elts ?arr1 r c"
      and res: "res = None \<or> res = Some ValueError"
      and full: "res = None \<longrightarrow> (\<forall>c\<in>set cs. \<forall>r<shape0 arr. \<not> isnan (elts arr' r c))"
      by simp_all
    have keep1: "elts ?arr1 r c = elts arr r c" if "\<not> isnan (elts arr r c)" for r c
      using that by (auto simp: filled_value_keeps)
    have "elts arr' r c = elts arr r c" if "\<not> isnan (elts arr r c)" for r c
      using keep [rule_format, of r c] keep1 [OF that] that by simp
    moreover have "\<not> isnan (elts arr' r i)" if "r < shape0 arr" for r
    proof -
      have "\<not> isnan (elts ?arr1 r i)"
        using filled_value_defined [OF True that] by simp
      then show ?thesis
        using keep [rule_format, of r i] by simp
    qed
    ultimately show ?thesis
      using sh res full by auto
  qed
qed

lemma fill_all_elts: "c < shape1 arr \<Longrightarrow> elts (fill_all arr) r c = filled_value arr r c"
  by (simp add: fill_all_def)

lemma fill_all_shape: "shape0 (fill_all arr) = shape0 arr" "shape1 (fill_all arr) = shape1 arr"
  by (simp_all add: fill_all_def)

text \<open>
  Claim C3, as amended. \<^verbatim>\<open>forward_fill_2d\<close> works in place. It returns the reference it
  was given or raises \<^verbatim>\<open>ValueError\<close>; no other array of the store changes; the array
  behind the reference keeps its shape and every cell that was defined; and after a
  normal return it has no undefined cell left, so an undefined cell of the input has been
  overwritten. The grid of the caller survives only when the caller passes a copy, as the
  notebook does with \<^verbatim>\<open>forward_fill_2d(abi_lat.copy())\<close>.
\<close>

theorem forward_fill_2d_in_place:
  "(fst (forward_fill_2d h a) = Inr a \<or> fst (forward_fill_2d h a) = Inl ValueError) \<and>
   (\<forall>b. b \<noteq> a \<longrightarrow> snd (forward_fill_2d h a) b = h b) \<and>
   shape0 (snd (forward_fill_2d h a) a) = shape0 (h a) \<and>
   shape1 (snd (forward_fill_2d h a) a) = shape1 (h a) \<and>
   (\<forall>r c. \<not> isnan (elts (h a) r c) \<longrightarrow>
          elts (snd (forward_fill_2d h a) a) r c = elts (h a) r c) \<and>
   (fst (forward_fill_2d h a) = Inr a \<longrightarrow>
      (\<forall>r<shape0 (h a). \<forall>c<shape1 (h a). \<not> isnan (elts (snd (forward_fill_2d h a) a) r c))) \<and>
   (\<forall>b. b \<noteq> a \<longrightarrow> snd (forward_fill_2d (ndarray_copy h a b) b) a = h a)"
proof -
  obtain res arr' where run: "fill_columns [0..<shape1 (h a)] (h a) = (res, arr')"
    by (cases "fill_columns [0..<shape1 (h a)] (h a)")
  note fr = fill_columns_frame [OF run]
  have out: "forward_fill_2d h a = ((case res of None \<Rightarrow> Inr a | Some e \<Rightarrow> Inl e), h(a := arr'))"
    by (cases res) (simp_all add: forward_fill_2d_def run)
  have "snd (forward_fill_2d (ndarray_copy h a b) b) a = h a" if "b \<noteq> a" for b
    using that
    by (cases "fill_columns [0..<shape1 (h a)] (h a)")
       (auto simp: forward_fill_2d_def ndarray_copy_def split: option.splits)
  then show ?thesis
    using fr unfolding out by (cases res) auto
qed

text \<open>
  The theorem on a store whose arrays all hold the column \<open>(1, undefined)\<close>, for the
  references 0 and 1.
\<close>

theorem forward_fill_2d_in_place_witness:
  "fst (forward_fill_2d (\<lambda>_. \<lparr>shape0 = 2, shape1 = 1, elts = \<lambda>r c. [Num 1, NaN] ! r\<rparr>) 0) = Inr 0 \<and>
   snd (forward_fill_2d (\<lambda>_. \<lparr>shape0 = 2, shape1 = 1, elts = \<lambda>r c. [Num 1, NaN] ! r\<rparr>) 0) 1 =
     \<lparr>shape0 = 2, shape1 = 1, elts = \<lambda>r c. [Num 1, NaN] ! r\<rparr> \<and>
   shape0 (snd (forward_fill_2d (\<lambda>_. \<lparr>shape0 = 2, shape1 = 1, elts = \<lambda>r c. [Num 1, NaN] ! r\<rparr>) 0) 0) = 2 \<and>
   elts (snd (forward_fill_2d (\<lambda>_. \<lparr>shape0 = 2, shape1 = 1, elts = \<lambda>r c. [Num 1, NaN] ! r\<rparr>) 0) 0) 0 0
     = Num 1 \<and>
   \<not> isnan (elts (snd (forward_fill_2d
       (\<lambda>_. \<lparr>shape0 = 2, shape1 = 1, elts = \<lambda>r c. [Num 1, NaN] ! r\<rparr>) 0) 0) 1 0) \<and>
   snd (forward_fill_2d
       (ndarray_copy (\<lambda>_. \<lparr>shape0 = 2, shape1 = 1, elts = \<lambda>r c. [Num 1, NaN] ! r\<rparr>) 0 1) 1) 0 =
     \<lparr>shape0 = 2, shape1 = 1, elts = \<lambda>r c. [Num 1, NaN] ! r\<rparr>"
proof -
  let ?A = "\<lparr>shape0 = 2, shape1 = 1, elts = \<lambda>r c. [Num 1, NaN] ! r\<rparr>"
  let ?h = "\<lambda>_ :: nat. ?A"
  note t = forward_fill_2d_in_place [of ?h 0]
  have run: "fst (forward_fill_2d ?h 0) = Inr 0"
    by code_simp
  from t have "\<forall>b. b \<noteq> 0 \<longrightarrow> snd (forward_fill_2d ?h 0) b = ?h b"
    by blast
  then have other: "snd (forward_fill_2d ?h 0) 1 = ?A"
    by simp
  from t have shape: "shape0 (snd (forward_fill_2d ?h 0) 0) = 2"
    by simp
  from t have "\<forall>r c. \<not> isnan (elts (?h 0) r c) \<longrightarrow>
      elts (snd (forward_fill_2d ?h 0) 0) r c = elts (?h 0) r c"
    by blast
  from this [rule_format, of 0 0] have kept: "elts (snd (forward_fill_2d ?h 0) 0) 0 0 = Num 1"
    by simp
  from t run have "\<forall>r<shape0 (?h 0). \<forall>c<shape1 (?h 0).
      \<not> isnan (elts (snd (forward_fill_2d ?h 0) 0) r c)"
    by blast
  from this [rule_format, of 1 0] have filled: "\<not> isnan (elts (snd (forward_fill_2d ?h 0) 0) 1 0)"
    by simp
  from t have "\<forall>b. b \<noteq> 0 \<longrightarrow> snd (forward_fill_2d (ndarray_copy ?h 0 b) b) 0 = ?h 0"
    by blast
  then have copy: "snd (forward_fill_2d (ndarray_copy ?h 0 1) 1) 0 = ?A"
    by simp
  from run other shape kept filled copy show ?thesis
    by (intro conjI)
qed

text \<open>
  Claim C3 as stated fails: on the column \<open>(1, undefined)\<close> the call returns the reference
  it was given, and the second cell of the array behind it, undefined before the call,
  holds 1 after it.
\<close>

theorem forward_fill_2d_mutates_counterexample:
  "elts ((\<lambda>_ :: nat. \<lparr>shape0 = 2, shape1 = 1, elts = \<lambda>r c. [Num 1, NaN] ! r\<rparr>) 0) 1 0 = NaN \<and>
   fst (forward_fill_2d (\<lambda>_. \<lparr>shape0 = 2, shape1 = 1, elts = \<lambda>r c. [Num 1, NaN] ! r\<rparr>) 0) = Inr 0 \<and>
   elts (snd (forward_fill_2d (\<lambda>_. \<lparr>shape0 = 2, shape1 = 1, elts = \<lambda>r c. [Num 1, NaN] ! r\<rparr>) 0) 0) 1 0
     = Num 1"
proof (intro conjI)
  show "elts ((\<lambda>_ :: nat. \<lparr>shape0 = 2, shape1 = 1, elts = \<lambda>r c. [Num 1, NaN] ! r\<rparr>) 0) 1 0 = NaN"
    by simp
  show "fst (forward_fill_2d (\<lambda>_. \<lparr>shape0 = 2, shape1 = 1, elts = \<lambda>r c. [Num 1, NaN] ! r\<rparr>) 0) = Inr 0"
    by code_simp
  show "elts (snd (forward_fill_2d
      (\<lambda>_. \<lparr>shape0 = 2, shape1 = 1, elts = \<lambda>r c. [Num 1, NaN] ! r\<rparr>) 0) 0) 1 0 = Num 1"
    by code_simp
qed




text \<open>
  Claim C8. In a grid whose columns each hold a defined value, the call returns normally
  and leaves a grid of the same shape without undefined cells; a second call on that
  result returns normally and changes nothing in the store.
\<close>

theorem forward_fill_2d_idempotent:
  assumes "\<forall>c<shape1 (h a). \<exists>r<shape0 (h a). \<not> isnan (elts (h a) r c)"
  shows "fst (forward_fill_2d h a) = Inr a \<and>
    shape0 (snd (forward_fill_2d h a) a) = shape0 (h a) \<and>
    shape1 (snd (forward_fill_2d h a) a) = shape1 (h a) \<and>
    (\<forall>r<shape0 (h a). \<forall>c<shape1 (h a). \<not> isnan (elts (snd (forward_fill_2d h a) a) r c)) \<and>
    forward_fill_2d (snd (forward_fill_2d h a)) a = (Inr a, snd (forward_fill_2d h a))"
proof -
  let ?g = "fill_all (h a)"
  let ?h' = "h(a := ?g)"
  have run: "forward_fill_2d h a = (Inr a, ?h')"
    using assms by (rule forward_fill_2d_defined)
  have full: "\<not> isnan (elts ?g r c)" if "r < shape0 (h a)" and "c < shape1 (h a)" for r c
    using assms that by (simp add: fill_all_elts filled_value_defined)
  have again: "\<forall>c<shape1 (?h' a). \<exists>r<shape0 (?h' a). \<not> isnan (elts (?h' a) r c)"
  proof (intro allI impI)
    fix c assume c: "c < shape1 (?h' a)"
    then have c': "c < shape1 (h a)" by (simp add: fill_all_shape)
    with assms obtain r where "r < shape0 (h a)" by blast
    with full [OF this c'] show "\<exists>r<shape0 (?h' a). \<not> isnan (elts (?h' a) r c)"
      by (auto simp: fill_all_shape)
  qed
  have "forward_fill_2d ?h' a = (Inr a, ?h'(a := fill_all (?h' a)))"
    using again by (rule forward_fill_2d_defined)
  moreover have "fill_all (?h' a) = ?g"
    using fill_all_idem [OF assms] by simp
  moreover have "?h'(a := ?g) = ?h'"
    by simp
  ultimately have "forward_fill_2d ?h' a = (Inr a, ?h')"
    by (simp only:)
  then show ?thesis
    using full by (simp add: run fill_all_shape)
qed


text \<open>
  The theorem on the grid with the rows \<open>(undefined, 3)\<close> and \<open>(2, undefined)\<close>, which the
  first call fills to \<open>(2, 3)\<close> and \<open>(2, 3)\<close>.
\<close>

theorem forward_fill_2d_idempotent_witness:
  "fst (forward_fill_2d (\<lambda>_. \<lparr>shape0 = 2, shape1 = 2,
      elts = \<lambda>r c. [[NaN, Num 3], [Num 2, NaN]] ! r ! c\<rparr>) 0) = Inr 0 \<and>
   \<not> isnan (elts (snd (forward_fill_2d (\<lambda>_. \<lparr>shape0 = 2, shape1 = 2,
      elts = \<lambda>r c. [[NaN, Num 3], [Num 2, NaN]] ! r ! c\<rparr>) 0) 0) 0 0) \<and>
   \<not> isnan (elts (snd (forward_fill_2d (\<lambda>_. \<lparr>shape0 = 2, shape1 = 2,
      elts = \<lambda>r c. [[NaN, Num 3], [Num 2, NaN]] ! r ! c\<rparr>) 0) 0) 1 1) \<and>
   forward_fill_2d (snd (forward_fill_2d (\<lambda>_. \<lparr>shape0 = 2, shape1 = 2,
      elts = \<lambda>r c. [[NaN, Num 3], [Num 2, NaN]] ! r ! c\<rparr>) 0)) 0 =
     (Inr 0, snd (forward_fill_2d (\<lambda>_. \<lparr>shape0 = 2, shape1 = 2,
      elts = \<lambda>r c. [[NaN, Num 3], [Num 2, NaN]] ! r ! c\<rparr>) 0)) \<and>
   elts (snd (forward_fill_2d (\<lambda>_. \<lparr>shape0 = 2, shape1 = 2,
      elts = \<lambda>r c. [[NaN, Num 3], [Num 2, NaN]] ! r ! c\<rparr>) 0) 0) 0 0 = Num 2 \<and>
   elts (snd (forward_fill_2d (\<lambda>_. \<lparr>shape0 = 2, shape1 = 2,
      elts = \<lambda>r c. [[NaN, Num 3], [Num 2, NaN]] ! r ! c\<rparr>) 0) 0) 1 1 = Num 3"
proof -
  let ?h = "\<lambda>_ :: nat. \<lparr>shape0 = 2, shape1 = 2,
      elts = \<lambda>r c. [[NaN, Num 3], [Num 2, NaN]] ! r ! c\<rparr>"
  let ?out = "snd (forward_fill_2d ?h 0)"
  have hyp: "\<forall>c<shape1 (?h 0). \<exists>r<shape0 (?h 0). \<not> isnan (elts (?h 0) r c)"
  proof (intro allI impI)
    fix c :: nat
    assume "c < shape1 (?h 0)"
    then have "c = 0 \<or> c = 1" by auto
    then show "\<exists>r<shape0 (?h 0). \<not> isnan (elts (?h 0) r c)"
    proof
      assume "c = 0"
      then show ?thesis by (intro exI [of _ 1]) simp
    next
      assume "c = 1"
      then show ?thesis by (intro exI [of _ 0]) simp
    qed
  qed
  note t = forward_fill_2d_idempotent [where h = ?h and a = 0, OF hyp]
  have run: "fst (forward_fill_2d ?h 0) = Inr 0"
    using t by blast
  have full: "\<forall>r<shape0 (?h 0). \<forall>c<shape1 (?h 0). \<not> isnan (elts (?out 0) r c)"
    using t by blast
  have d00: "\<not> isnan (elts (?out 0) 0 0)"
    using full [rule_format, of 0 0] by simp
  have d11: "\<not> isnan (elts (?out 0) 1 1)"
    using full [rule_format, of 1 1] by simp
  have again: "forward_fill_2d ?out 0 = (Inr 0, ?out)"
    using t by blast
  have v00: "elts (?out 0) 0 0 = Num 2"
    by code_simp
  have v11: "elts (?out 0) 1 1 = Num 3"
    by code_simp
  from run d00 d11 again v00 v11 show ?thesis
    by (intro conjI)
qed

section \<open>Properties of the Nearest-Point Locator\<close>
















section \<open>Properties of the Neighbor Offset Generator\<close>

lemma calculate_points_length: "length (calculate_points lat_idx lon_idx istep0) = 8"
  by (simp add: calculate_points_def)

lemma calculate_points_names:
  "map pt_name (calculate_points lat_idx lon_idx istep0) =
     [''NE'', ''East'', ''SW'', ''N'', ''S'', ''NW'', ''W'', ''SW'']"
  by (simp add: calculate_points_def)

lemma calculate_points_ignores_step:
  "calculate_points lat_idx lon_idx istep0 = calculate_points lat_idx lon_idx 1"
  by (simp add: calculate_points_def)

text \<open>
  Claim C1 (eight entries with pairwise distinct compass names). The source returns eight
  entries, but the third one, at column \<^verbatim>\<open>lon_idx+istep\<close> and row \<^verbatim>\<open>lat_idx-istep\<close>
  (the cell the notebook's own comment calls \<^verbatim>\<open>southeast_point\<close>), carries the name
  \<^verbatim>\<open>'SW'\<close>, as the last entry does: at the call \<^verbatim>\<open>calculate_points(1)\<close> with the
  center \<^verbatim>\<open>(5, 5)\<close> the names are not pairwise distinct.
\<close>

theorem calculate_points_names_at_5_5:
  "length (calculate_points 5 5 1) = 8 \<and>
   map pt_name (calculate_points 5 5 1) =
     [''NE'', ''East'', ''SW'', ''N'', ''S'', ''NW'', ''W'', ''SW''] \<and>
   \<not> distinct (map pt_name (calculate_points 5 5 1))"
  by (simp add: calculate_points_def)

text \<open>
  Claim C2 (every offset is \<open>\<plusminus>s\<close> away from the center for the step size \<open>s\<close> passed).
  The argument is overwritten by \<^verbatim>\<open>istep = 1\<close>: with the center \<^verbatim>\<open>(5, 5)\<close> the call
  \<^verbatim>\<open>calculate_points(2)\<close> returns the ring at distance 1, not at distance 2.
\<close>

theorem calculate_points_step_2_at_5_5:
  "map (\<lambda>p. (pt_i p, pt_j p)) (calculate_points 5 5 2) =
     [(6, 6), (6, 5), (6, 4), (5, 6), (5, 4), (4, 6), (4, 5), (4, 4)]"
  by (simp add: calculate_points_def)

section \<open>Properties of the Time-Series Extractor\<close>

lemma isel_accepts:
  assumes "- int (n_y ds) \<le> y" and "y < int (n_y ds)"
    and "- int (n_x ds) \<le> x" and "x < int (n_x ds)"
  shows "isel ds y x = Inr (series_at ds (wrap_index (n_y ds) y) (wrap_index (n_x ds) x))"
  using assms by (simp add: isel_def isel_index_def series_at_def)

lemma isel_rejects:
  assumes "int (n_y ds) \<le> y \<or> y < - int (n_y ds) \<or> int (n_x ds) \<le> x \<or> x < - int (n_x ds)"
  shows "isel ds y x = Inl IndexError"
  using assms by (auto simp: isel_def isel_index_def split: sum.splits)

lemma concat_points_accepts:
  assumes "\<forall>p\<in>set ps. - int (n_y ds) \<le> pt_j p \<and> pt_j p < int (n_y ds) \<and>
                      - int (n_x ds) \<le> pt_i p \<and> pt_i p < int (n_x ds)"
  shows "concat_points ds combined ps =
     Inr (combined @ map (\<lambda>p. series_at ds (wrap_index (n_y ds) (pt_j p))
                                          (wrap_index (n_x ds) (pt_i p))) ps)"
  using assms
proof (induction ps arbitrary: combined)
  case Nil
  then show ?case by simp
next
  case (Cons p ps)
  then show ?case by (simp add: isel_accepts)
qed

lemma extract_points_accepts:
  assumes "points \<noteq> []"
    and "\<forall>p\<in>set points. - int (n_y ds) \<le> pt_j p \<and> pt_j p < int (n_y ds) \<and>
                      - int (n_x ds) \<le> pt_i p \<and> pt_i p < int (n_x ds)"
  shows "extract_points ds points =
     Inr (map (\<lambda>p. series_at ds (wrap_index (n_y ds) (pt_j p))
                               (wrap_index (n_x ds) (pt_i p))) points)"
proof (cases points)
  case Nil
  with assms(1) show ?thesis by simp
next
  case (Cons p0 ps)
  with assms(2) show ?thesis
    by (simp add: isel_accepts concat_points_accepts)
qed

lemma wrap_index_in_bounds: "0 \<le> k \<Longrightarrow> wrap_index n k = nat k"
  by (simp add: wrap_index_def)

text \<open>
  Claim C10. For eight points inside the grid, the extraction returns normally with eight
  series, in the order of the points; each has one sample per timestamp, and the sample
  of series \<open>k\<close> at timestamp \<open>t\<close> is the data field's cell at the row and column of point
  \<open>k\<close> and at \<open>t\<close>, undefined when that cell is undefined.
\<close>

theorem extract_points_gather:
  assumes "length points = 8"
    and "\<forall>p\<in>set points. 0 \<le> pt_j p \<and> pt_j p < int (n_y ds) \<and>
                         0 \<le> pt_i p \<and> pt_i p < int (n_x ds)"
  shows "\<exists>subset. extract_points ds points = Inr subset \<and> length subset = 8 \<and>
    (\<forall>k<8. length (subset ! k) = n_time ds \<and>
       (\<forall>t<n_time ds. subset ! k ! t = data ds t (nat (pt_j (points ! k))) (nat (pt_i (points ! k)))))"
proof -
  let ?g = "\<lambda>p. series_at ds (wrap_index (n_y ds) (pt_j p)) (wrap_index (n_x ds) (pt_i p))"
  have ne: "points \<noteq> []"
    using assms(1) by auto
  have "\<forall>p\<in>set points. - int (n_y ds) \<le> pt_j p \<and> pt_j p < int (n_y ds) \<and>
                        - int (n_x ds) \<le> pt_i p \<and> pt_i p < int (n_x ds)"
    using assms(2) by fastforce
  from extract_points_accepts [OF ne this]
  have run: "extract_points ds points = Inr (map ?g points)" .
  have "length (map ?g points ! k) = n_time ds \<and>
       (\<forall>t<n_time ds. map ?g points ! k ! t =
           data ds t (nat (pt_j (points ! k))) (nat (pt_i (points ! k))))" if "k < 8" for k
  proof -
    have k: "k < length points" using that assms(1) by simp
    then have "points ! k \<in> set points" by simp
    with assms(2) have "0 \<le> pt_j (points ! k)" "0 \<le> pt_i (points ! k)" by auto
    then show ?thesis
      using k by (simp add: series_at_def wrap_index_in_bounds)
  qed
  then show ?thesis
    using run assms(1) by simp
qed

text \<open>
  The theorem on a data field of 3 timestamps, 5 rows and 5 columns that holds
  \<open>10 * row + column\<close>, at the eight neighbors of the center \<open>(2, 2)\<close>: the last of them
  is the cell \<open>(1, 1)\<close>, with the series \<open>(11, 11, 11)\<close>.
\<close>

theorem extract_points_gather_witness:
  "(\<exists>subset.
      extract_points \<lparr>n_time = 3, n_y = 5, n_x = 5, data = \<lambda>t y x. Num (real (y * 10 + x))\<rparr>
        (calculate_points 2 2 1) = Inr subset \<and>
      length subset = 8 \<and> length (subset ! 7) = 3 \<and>
      subset ! 7 ! 0 = Num 11 \<and> subset ! 7 ! 1 = Num 11 \<and> subset ! 7 ! 2 = Num 11) \<and>
   extract_points \<lparr>n_time = 3, n_y = 5, n_x = 5, data = \<lambda>t y x. Num (real (y * 10 + x))\<rparr>
       (calculate_points 2 2 1) =
     Inr [[Num 33, Num 33, Num 33], [Num 23, Num 23, Num 23], [Num 13, Num 13, Num 13],
          [Num 32, Num 32, Num 32], [Num 12, Num 12, Num 12], [Num 31, Num 31, Num 31],
          [Num 21, Num 21, Num 21], [Num 11, Num 11, Num 11]]"
proof
  let ?ds = "\<lparr>n_time = 3, n_y = 5, n_x = 5, data = \<lambda>t y x :: nat. Num (real (y * 10 + x))\<rparr>"
  have len: "length (calculate_points 2 2 1) = 8"
    by (simp add: calculate_points_def)
  have inside: "\<forall>p\<in>set (calculate_points 2 2 1).
      0 \<le> pt_j p \<and> pt_j p < int (n_y ?ds) \<and> 0 \<le> pt_i p \<and> pt_i p < int (n_x ?ds)"
    by (simp add: calculate_points_def)
  from extract_points_gather [where ds = ?ds, OF len inside]
  obtain subset where run: "extract_points ?ds (calculate_points 2 2 1) = Inr subset"
    and n: "length subset = 8"
    and each: "\<forall>k<8. length (subset ! k) = n_time ?ds \<and>
       (\<forall>t<n_time ?ds. subset ! k ! t =
           data ?ds t (nat (pt_j (calculate_points 2 2 1 ! k)))
             (nat (pt_i (calculate_points 2 2 1 ! k))))"
    by blast
  have last: "pt_j (calculate_points 2 2 1 ! 7) = 1" "pt_i (calculate_points 2 2 1 ! 7) = 1"
    by (simp_all add: calculate_points_def)
  from each [rule_format, of 7]
  have l7: "length (subset ! 7) = 3"
    and v7: "\<forall>t<3. subset ! 7 ! t = Num 11"
    using last by simp_all
  from run n l7 v7 [rule_format, of 0] v7 [rule_format, of 1] v7 [rule_format, of 2]
  show "\<exists>subset. extract_points ?ds (calculate_points 2 2 1) = Inr subset \<and>
      length subset = 8 \<and> length (subset ! 7) = 3 \<and>
      subset ! 7 ! 0 = Num 11 \<and> subset ! 7 ! 1 = Num 11 \<and> subset ! 7 ! 2 = Num 11"
    by simp
  show "extract_points ?ds (calculate_points 2 2 1) =
     Inr [[Num 33, Num 33, Num 33], [Num 23, Num 23, Num 23], [Num 13, Num 13, Num 13],
          [Num 32, Num 32, Num 32], [Num 12, Num 12, Num 12], [Num 31, Num 31, Num 31],
          [Num 21, Num 21, Num 21], [Num 11, Num 11, Num 11]]"
    by code_simp
qed

text \<open>
  Claim C4, as amended. For a center inside the grid, the points of
  \<^verbatim>\<open>calculate_points\<close> are extracted as follows. When the center is on the last row or
  on the last column, a neighbor index equals the size of its axis and the extraction
  raises \<^verbatim>\<open>IndexError\<close>. Otherwise it returns normally, also when the center is on
  row 0 or on column 0: the neighbor index \<open>-1\<close> is then read from the last row or
  column. No index is clamped.
\<close>

theorem extract_points_edges:
  assumes "0 \<le> lat_idx" and "lat_idx < int (n_y ds)"
    and "0 \<le> lon_idx" and "lon_idx < int (n_x ds)"
  shows "(lat_idx + 1 = int (n_y ds) \<or> lon_idx + 1 = int (n_x ds) \<longrightarrow>
            extract_points ds (calculate_points lat_idx lon_idx istep) = Inl IndexError) \<and>
         (lat_idx + 1 < int (n_y ds) \<and> lon_idx + 1 < int (n_x ds) \<longrightarrow>
            extract_points ds (calculate_points lat_idx lon_idx istep) =
              Inr (map (\<lambda>p. series_at ds (wrap_index (n_y ds) (pt_j p)) (wrap_index (n_x ds) (pt_i p)))
                     (calculate_points lat_idx lon_idx istep)))"
proof (intro conjI impI)
  assume "lat_idx + 1 = int (n_y ds) \<or> lon_idx + 1 = int (n_x ds)"
  then have "isel ds (lat_idx + 1) (lon_idx + 1) = Inl IndexError"
    by (intro isel_rejects) auto
  then show "extract_points ds (calculate_points lat_idx lon_idx istep) = Inl IndexError"
    by (simp add: calculate_points_def)
next
  assume "lat_idx + 1 < int (n_y ds) \<and> lon_idx + 1 < int (n_x ds)"
  then have "\<forall>p\<in>set (calculate_points lat_idx lon_idx istep).
      - int (n_y ds) \<le> pt_j p \<and> pt_j p < int (n_y ds) \<and>
      - int (n_x ds) \<le> pt_i p \<and> pt_i p < int (n_x ds)"
    using assms by (simp add: calculate_points_def)
  moreover have "calculate_points lat_idx lon_idx istep \<noteq> []"
    by (simp add: calculate_points_def)
  ultimately show "extract_points ds (calculate_points lat_idx lon_idx istep) =
      Inr (map (\<lambda>p. series_at ds (wrap_index (n_y ds) (pt_j p)) (wrap_index (n_x ds) (pt_i p)))
             (calculate_points lat_idx lon_idx istep))"
    by (intro extract_points_accepts) auto
qed

text \<open>
  The theorem on the same data field: the center \<open>(4, 2)\<close>, on the last row, raises, and
  the center \<open>(0, 2)\<close>, on the first row, does not.
\<close>

theorem extract_points_edges_witness:
  "extract_points \<lparr>n_time = 3, n_y = 5, n_x = 5, data = \<lambda>t y x. Num (real (y * 10 + x))\<rparr>
       (calculate_points 4 2 1) = Inl IndexError \<and>
   extract_points \<lparr>n_time = 3, n_y = 5, n_x = 5, data = \<lambda>t y x. Num (real (y * 10 + x))\<rparr>
       (calculate_points 0 2 1) =
     Inr (map (\<lambda>p. series_at
                 \<lparr>n_time = 3, n_y = 5, n_x = 5, data = \<lambda>t y x. Num (real (y * 10 + x))\<rparr>
                 (wrap_index 5 (pt_j p)) (wrap_index 5 (pt_i p)))
            (calculate_points 0 2 1))"
proof
  let ?ds = "\<lparr>n_time = 3, n_y = 5, n_x = 5, data = \<lambda>t y x :: nat. Num (real (y * 10 + x))\<rparr>"
  have low: "(0 :: int) \<le> 4" "(4 :: int) < int (n_y ?ds)" "(0 :: int) \<le> 2" "(2 :: int) < int (n_x ?ds)"
    by simp_all
  from extract_points_edges [where ds = ?ds and istep = 1, OF low]
  show "extract_points ?ds (calculate_points 4 2 1) = Inl IndexError"
    by simp
  have top: "(0 :: int) \<le> 0" "(0 :: int) < int (n_y ?ds)" "(0 :: int) \<le> 2" "(2 :: int) < int (n_x ?ds)"
    by simp_all
  from extract_points_edges [where ds = ?ds and istep = 1, OF top]
  show "extract_points ?ds (calculate_points 0 2 1) =
     Inr (map (\<lambda>p. series_at ?ds (wrap_index 5 (pt_j p)) (wrap_index 5 (pt_i p)))
            (calculate_points 0 2 1))"
    by simp
qed

text \<open>
  Claim C4 as stated fails. In a data field of 3 timestamps, 5 rows and 5 columns that
  holds \<open>10 * row + column\<close>, the center \<open>(0, 2)\<close> gives three neighbors in row \<open>-1\<close>;
  the extraction returns normally, and their series hold 43, 42 and 41, the cells of the
  last row.
\<close>

theorem extract_points_wraps_counterexample:
  "map pt_j (calculate_points 0 2 1) = [1, 0, - 1, 1, - 1, 1, 0, - 1] \<and>
   extract_points \<lparr>n_time = 3, n_y = 5, n_x = 5, data = \<lambda>t y x. Num (real (y * 10 + x))\<rparr>
       (calculate_points 0 2 1) =
     Inr [[Num 13, Num 13, Num 13], [Num 3, Num 3, Num 3], [Num 43, Num 43, Num 43],
          [Num 12, Num 12, Num 12], [Num 42, Num 42, Num 42], [Num 11, Num 11, Num 11],
          [Num 1, Num 1, Num 1], [Num 41, Num 41, Num 41]]"
  by code_simp

end
